theory Spec2Isabelle
  imports Main "HOL-Library.Sublist" "HOL-Library.Word"
begin

section \<open>Python values and exceptions\<close>

text \<open>
  The bot of \<^verbatim>\<open>homework.py\<close> handles values decoded from JSON by
  \<^verbatim>\<open>response.json()\<close>: \<^verbatim>\<open>None\<close>, booleans, integers, floats, strings, lists and
  dictionaries with string keys. A float is kept as its IEEE-754 bit pattern; the code never
  computes with one. A dictionary is an association list whose first binding of a key is the
  effective one. A Python \<^verbatim>\<open>str\<close> is modelled by its UTF-8 bytes: concatenation,
  equality and emptiness, the only string operations of the program, agree with that encoding.
\<close>

datatype json =
    JNull
  | JBool bool
  | JInt int
  | JFloat "64 word"
  | JStr string
  | JList "json list"
  | JDict "(string \<times> json) list"

text \<open>
  Exceptions. \<open>Exception\<close> stands for any exception class the program does not name.
  An exception carries the text it was raised with (\<open>Msg\<close>), the missing key of a
  dictionary subscript (\<open>Obj\<close>), or a text chosen by the interpreter that the model does
  not spell out (\<open>NoText\<close>).
\<close>

datatype exn_class =
    Exception
  | TypeError
  | KeyError
  | AttributeError
  | ValueError
  | RequestException
  | ConnectTimeout
  | HTTPError
  | TelegramError
  | UnexpectedStatusError

datatype exn_arg = Msg string | Obj json | NoText

datatype exn = Exn exn_class exn_arg

text \<open>
  The class hierarchy as far as the \<^verbatim>\<open>except\<close> clauses of the program see it:
  everything derives from \<^verbatim>\<open>Exception\<close>; \<^verbatim>\<open>ConnectTimeout\<close> and
  \<^verbatim>\<open>HTTPError\<close> derive from \<^verbatim>\<open>requests.exceptions.RequestException\<close>;
  \<^verbatim>\<open>UnexpectedStatusError\<close> (line 38) derives from \<^verbatim>\<open>Exception\<close> only.
  What does not derive from \<^verbatim>\<open>Exception\<close> (a keyboard interrupt, the exit of the
  interpreter) is outside the model.
\<close>

fun issubclass :: "exn_class \<Rightarrow> exn_class \<Rightarrow> bool" where
  "issubclass c Exception = True"
| "issubclass c RequestException = (c = RequestException \<or> c = ConnectTimeout \<or> c = HTTPError)"
| "issubclass c d = (c = d)"

definition isinstance :: "exn \<Rightarrow> exn_class \<Rightarrow> bool" where
  "isinstance error d = (case error of Exn c _ \<Rightarrow> issubclass c d)"

section \<open>Effects\<close>

text \<open>
  Everything the program does to the outside world is recorded as a trace of events, in the
  order of the calls: a log record, a call of \<^verbatim>\<open>requests.get\<close> (URL, headers, query
  parameters), a call of \<^verbatim>\<open>bot.send_message\<close> (chat identifier and text) that
  returned or raised, and a call of \<^verbatim>\<open>time.sleep\<close>. A log message that interpolates
  an exception keeps the exception as a value.
\<close>

datatype level = INFO | ERROR | CRITICAL

datatype log_msg = Text string | TextExn string exn

datatype event =
    Log level log_msg
  | HttpGet string "(string \<times> string) list" "(string \<times> int) list"
  | Sent "string option" string
  | SendFailed "string option" string exn
  | Sleep int

text \<open>
  A function that can log and raise returns its events and either the exception (\<open>Inl\<close>)
  or its value (\<open>Inr\<close>). \<open>seq\<close> runs a second step after a first one that returned.
\<close>

type_synonym 'a result = "event list \<times> (exn + 'a)"

definition seq :: "'a result \<Rightarrow> ('a \<Rightarrow> 'b result) \<Rightarrow> 'b result" where
  "seq m f =
     (case m of
        (ev, Inl error) \<Rightarrow> (ev, Inl error)
      | (ev, Inr x) \<Rightarrow> (case f x of (ev', r) \<Rightarrow> (ev @ ev', r)))"

section \<open>Formatting\<close>

text \<open>\<^verbatim>\<open>str(n)\<close> of an integer: its decimal digits, with a minus sign when negative.\<close>

fun str_nat :: "nat \<Rightarrow> string" where
  "str_nat n = (if n < 10 then [''0123456789'' ! n] else str_nat (n div 10) @ [''0123456789'' ! (n mod 10)])"

definition str_int :: "int \<Rightarrow> string" where
  "str_int i = (if i < 0 then ''-'' @ str_nat (nat (- i)) else str_nat (nat i))"

text \<open>
  A replacement field \<^verbatim>\<open>{value}\<close> of an f-string. The text of a float, a list or a
  dictionary is the interpreter's \<^verbatim>\<open>repr\<close>, which is no part of the repository: it is
  the parameter \<open>py_repr\<close>.
\<close>

definition py_format :: "(json \<Rightarrow> string) \<Rightarrow> json \<Rightarrow> string" where
  "py_format py_repr v =
     (case v of
        JStr s \<Rightarrow> s
      | JNull \<Rightarrow> ''None''
      | JBool b \<Rightarrow> (if b then ''True'' else ''False'')
      | JInt i \<Rightarrow> str_int i
      | _ \<Rightarrow> py_repr v)"

section \<open>Module constants (lines 14 to 27)\<close>

text \<open>The three environment variables read by \<^verbatim>\<open>os.getenv\<close>: a string, or \<^verbatim>\<open>None\<close>.\<close>

record config =
  PRACTICUM_TOKEN :: "string option"
  TELEGRAM_TOKEN :: "string option"
  TELEGRAM_CHAT_ID :: "string option"

definition RETRY_TIME :: int where
  "RETRY_TIME = 600"

definition ENDPOINT :: string where
  "ENDPOINT = ''https://practicum.yandex.ru/api/user_api/homework_statuses/''"

definition HEADERS :: "config \<Rightarrow> (string \<times> string) list" where
  "HEADERS cfg =
     [(''Authorization'', ''OAuth '' @ (case PRACTICUM_TOKEN cfg of None \<Rightarrow> ''None'' | Some token \<Rightarrow> token))]"

text \<open>
  The verdict texts of lines 24 to 26, as UTF-8 bytes:
  \<^verbatim>\<open>approved\<close> is \<^verbatim>\<open>Rabota proverena: revyueru vsyo ponravilos. Ura!\<close>;
  \<^verbatim>\<open>reviewing\<close> is \<^verbatim>\<open>Rabota vzyata na proverku revyuerom.\<close>;
  \<^verbatim>\<open>rejected\<close> is \<^verbatim>\<open>Rabota proverena: u revyuera est zamechaniya.\<close>.
\<close>

definition verdict_approved :: string where
  "verdict_approved =
     [CHR 0xD0, CHR 0xA0, CHR 0xD0, CHR 0xB0, CHR 0xD0, CHR 0xB1, CHR 0xD0, CHR 0xBE] @
     [CHR 0xD1, CHR 0x82, CHR 0xD0, CHR 0xB0] @ '' '' @
     [CHR 0xD0, CHR 0xBF, CHR 0xD1, CHR 0x80, CHR 0xD0, CHR 0xBE, CHR 0xD0, CHR 0xB2] @
     [CHR 0xD0, CHR 0xB5, CHR 0xD1, CHR 0x80, CHR 0xD0, CHR 0xB5, CHR 0xD0, CHR 0xBD] @
     [CHR 0xD0, CHR 0xB0] @ '': '' @
     [CHR 0xD1, CHR 0x80, CHR 0xD0, CHR 0xB5, CHR 0xD0, CHR 0xB2, CHR 0xD1, CHR 0x8C] @
     [CHR 0xD1, CHR 0x8E, CHR 0xD0, CHR 0xB5, CHR 0xD1, CHR 0x80, CHR 0xD1, CHR 0x83] @ '' '' @
     [CHR 0xD0, CHR 0xB2, CHR 0xD1, CHR 0x81, CHR 0xD1, CHR 0x91] @ '' '' @
     [CHR 0xD0, CHR 0xBF, CHR 0xD0, CHR 0xBE, CHR 0xD0, CHR 0xBD, CHR 0xD1, CHR 0x80] @
     [CHR 0xD0, CHR 0xB0, CHR 0xD0, CHR 0xB2, CHR 0xD0, CHR 0xB8, CHR 0xD0, CHR 0xBB] @
     [CHR 0xD0, CHR 0xBE, CHR 0xD1, CHR 0x81, CHR 0xD1, CHR 0x8C] @ ''. '' @
     [CHR 0xD0, CHR 0xA3, CHR 0xD1, CHR 0x80, CHR 0xD0, CHR 0xB0] @ ''!''"

definition verdict_reviewing :: string where
  "verdict_reviewing =
     [CHR 0xD0, CHR 0xA0, CHR 0xD0, CHR 0xB0, CHR 0xD0, CHR 0xB1, CHR 0xD0, CHR 0xBE] @
     [CHR 0xD1, CHR 0x82, CHR 0xD0, CHR 0xB0] @ '' '' @
     [CHR 0xD0, CHR 0xB2, CHR 0xD0, CHR 0xB7, CHR 0xD1, CHR 0x8F, CHR 0xD1, CHR 0x82] @
     [CHR 0xD0, CHR 0xB0] @ '' '' @ [CHR 0xD0, CHR 0xBD, CHR 0xD0, CHR 0xB0] @ '' '' @
     [CHR 0xD0, CHR 0xBF, CHR 0xD1, CHR 0x80, CHR 0xD0, CHR 0xBE, CHR 0xD0, CHR 0xB2] @
     [CHR 0xD0, CHR 0xB5, CHR 0xD1, CHR 0x80, CHR 0xD0, CHR 0xBA, CHR 0xD1, CHR 0x83] @ '' '' @
     [CHR 0xD1, CHR 0x80, CHR 0xD0, CHR 0xB5, CHR 0xD0, CHR 0xB2, CHR 0xD1, CHR 0x8C] @
     [CHR 0xD1, CHR 0x8E, CHR 0xD0, CHR 0xB5, CHR 0xD1, CHR 0x80, CHR 0xD0, CHR 0xBE] @
     [CHR 0xD0, CHR 0xBC] @ ''.''"

definition verdict_rejected :: string where
  "verdict_rejected =
     [CHR 0xD0, CHR 0xA0, CHR 0xD0, CHR 0xB0, CHR 0xD0, CHR 0xB1, CHR 0xD0, CHR 0xBE] @
     [CHR 0xD1, CHR 0x82, CHR 0xD0, CHR 0xB0] @ '' '' @
     [CHR 0xD0, CHR 0xBF, CHR 0xD1, CHR 0x80, CHR 0xD0, CHR 0xBE, CHR 0xD0, CHR 0xB2] @
     [CHR 0xD0, CHR 0xB5, CHR 0xD1, CHR 0x80, CHR 0xD0, CHR 0xB5, CHR 0xD0, CHR 0xBD] @
     [CHR 0xD0, CHR 0xB0] @ '': '' @ [CHR 0xD1, CHR 0x83] @ '' '' @
     [CHR 0xD1, CHR 0x80, CHR 0xD0, CHR 0xB5, CHR 0xD0, CHR 0xB2, CHR 0xD1, CHR 0x8C] @
     [CHR 0xD1, CHR 0x8E, CHR 0xD0, CHR 0xB5, CHR 0xD1, CHR 0x80, CHR 0xD0, CHR 0xB0] @ '' '' @
     [CHR 0xD0, CHR 0xB5, CHR 0xD1, CHR 0x81, CHR 0xD1, CHR 0x82, CHR 0xD1, CHR 0x8C] @ '' '' @
     [CHR 0xD0, CHR 0xB7, CHR 0xD0, CHR 0xB0, CHR 0xD0, CHR 0xBC, CHR 0xD0, CHR 0xB5] @
     [CHR 0xD1, CHR 0x87, CHR 0xD0, CHR 0xB0, CHR 0xD0, CHR 0xBD, CHR 0xD0, CHR 0xB8] @
     [CHR 0xD1, CHR 0x8F] @ ''.''"

definition HOMEWORK_STATUSES :: "(string \<times> string) list" where
  "HOMEWORK_STATUSES =
     [(''approved'', verdict_approved),
      (''reviewing'', verdict_reviewing),
      (''rejected'', verdict_rejected)]"

section \<open>Message texts\<close>

text \<open>
  The Russian string literals of the program, byte for byte in UTF-8, each with the line it
  stands on and a transliteration.
\<close>

text \<open>Line 45: \<^verbatim>\<open>Soobshchenie otpravleno\<close>.\<close>

definition text_sent :: string where
  "text_sent =
     [CHR 0xD0, CHR 0xA1, CHR 0xD0, CHR 0xBE, CHR 0xD0, CHR 0xBE, CHR 0xD0, CHR 0xB1] @
     [CHR 0xD1, CHR 0x89, CHR 0xD0, CHR 0xB5, CHR 0xD0, CHR 0xBD, CHR 0xD0, CHR 0xB8] @
     [CHR 0xD0, CHR 0xB5] @ '' '' @
     [CHR 0xD0, CHR 0xBE, CHR 0xD1, CHR 0x82, CHR 0xD0, CHR 0xBF, CHR 0xD1, CHR 0x80] @
     [CHR 0xD0, CHR 0xB0, CHR 0xD0, CHR 0xB2, CHR 0xD0, CHR 0xBB, CHR 0xD0, CHR 0xB5] @
     [CHR 0xD0, CHR 0xBD, CHR 0xD0, CHR 0xBE]"

text \<open>Line 47: \<^verbatim>\<open>Soobshchenie ne otpravleno\<close>.\<close>

definition text_not_sent :: string where
  "text_not_sent =
     [CHR 0xD0, CHR 0xA1, CHR 0xD0, CHR 0xBE, CHR 0xD0, CHR 0xBE, CHR 0xD0, CHR 0xB1] @
     [CHR 0xD1, CHR 0x89, CHR 0xD0, CHR 0xB5, CHR 0xD0, CHR 0xBD, CHR 0xD0, CHR 0xB8] @
     [CHR 0xD0, CHR 0xB5] @ '' '' @ [CHR 0xD0, CHR 0xBD, CHR 0xD0, CHR 0xB5] @ '' '' @
     [CHR 0xD0, CHR 0xBE, CHR 0xD1, CHR 0x82, CHR 0xD0, CHR 0xBF, CHR 0xD1, CHR 0x80] @
     [CHR 0xD0, CHR 0xB0, CHR 0xD0, CHR 0xB2, CHR 0xD0, CHR 0xBB, CHR 0xD0, CHR 0xB5] @
     [CHR 0xD0, CHR 0xBD, CHR 0xD0, CHR 0xBE]"

text \<open>Line 56: \<^verbatim>\<open>Prevysheno vremya ozhidaniya otveta servera + space\<close>.\<close>

definition text_timeout :: string where
  "text_timeout =
     [CHR 0xD0, CHR 0x9F, CHR 0xD1, CHR 0x80, CHR 0xD0, CHR 0xB5, CHR 0xD0, CHR 0xB2] @
     [CHR 0xD1, CHR 0x8B, CHR 0xD1, CHR 0x88, CHR 0xD0, CHR 0xB5, CHR 0xD0, CHR 0xBD] @
     [CHR 0xD0, CHR 0xBE] @ '' '' @
     [CHR 0xD0, CHR 0xB2, CHR 0xD1, CHR 0x80, CHR 0xD0, CHR 0xB5, CHR 0xD0, CHR 0xBC] @
     [CHR 0xD1, CHR 0x8F] @ '' '' @
     [CHR 0xD0, CHR 0xBE, CHR 0xD0, CHR 0xB6, CHR 0xD0, CHR 0xB8, CHR 0xD0, CHR 0xB4] @
     [CHR 0xD0, CHR 0xB0, CHR 0xD0, CHR 0xBD, CHR 0xD0, CHR 0xB8, CHR 0xD1, CHR 0x8F] @ '' '' @
     [CHR 0xD0, CHR 0xBE, CHR 0xD1, CHR 0x82, CHR 0xD0, CHR 0xB2, CHR 0xD0, CHR 0xB5] @
     [CHR 0xD1, CHR 0x82, CHR 0xD0, CHR 0xB0] @ '' '' @
     [CHR 0xD1, CHR 0x81, CHR 0xD0, CHR 0xB5, CHR 0xD1, CHR 0x80, CHR 0xD0, CHR 0xB2] @
     [CHR 0xD0, CHR 0xB5, CHR 0xD1, CHR 0x80, CHR 0xD0, CHR 0xB0] @ '' ''"

text \<open>Line 59: \<^verbatim>\<open>Proizoshla oshibka soedineniya + space\<close>.\<close>

definition text_connection :: string where
  "text_connection =
     [CHR 0xD0, CHR 0x9F, CHR 0xD1, CHR 0x80, CHR 0xD0, CHR 0xBE, CHR 0xD0, CHR 0xB8] @
     [CHR 0xD0, CHR 0xB7, CHR 0xD0, CHR 0xBE, CHR 0xD1, CHR 0x88, CHR 0xD0, CHR 0xBB] @
     [CHR 0xD0, CHR 0xB0] @ '' '' @
     [CHR 0xD0, CHR 0xBE, CHR 0xD1, CHR 0x88, CHR 0xD0, CHR 0xB8, CHR 0xD0, CHR 0xB1] @
     [CHR 0xD0, CHR 0xBA, CHR 0xD0, CHR 0xB0] @ '' '' @
     [CHR 0xD1, CHR 0x81, CHR 0xD0, CHR 0xBE, CHR 0xD0, CHR 0xB5, CHR 0xD0, CHR 0xB4] @
     [CHR 0xD0, CHR 0xB8, CHR 0xD0, CHR 0xBD, CHR 0xD0, CHR 0xB5, CHR 0xD0, CHR 0xBD] @
     [CHR 0xD0, CHR 0xB8, CHR 0xD1, CHR 0x8F] @ '' ''"

text \<open>Line 62: \<^verbatim>\<open>Sboi v programme: Endpoint + space\<close>.\<close>

definition text_endpoint_pre :: string where
  "text_endpoint_pre =
     [CHR 0xD0, CHR 0xA1, CHR 0xD0, CHR 0xB1, CHR 0xD0, CHR 0xBE, CHR 0xD0, CHR 0xB9] @ '' '' @
     [CHR 0xD0, CHR 0xB2] @ '' '' @
     [CHR 0xD0, CHR 0xBF, CHR 0xD1, CHR 0x80, CHR 0xD0, CHR 0xBE, CHR 0xD0, CHR 0xB3] @
     [CHR 0xD1, CHR 0x80, CHR 0xD0, CHR 0xB0, CHR 0xD0, CHR 0xBC, CHR 0xD0, CHR 0xBC] @
     [CHR 0xD0, CHR 0xB5] @ '': '' @
     [CHR 0xD0, CHR 0xAD, CHR 0xD0, CHR 0xBD, CHR 0xD0, CHR 0xB4, CHR 0xD0, CHR 0xBF] @
     [CHR 0xD0, CHR 0xBE, CHR 0xD0, CHR 0xB8, CHR 0xD0, CHR 0xBD, CHR 0xD1, CHR 0x82] @ '' ''"

text \<open>Line 62-63: \<^verbatim>\<open>space + nedostupen.Nedostupen. Kod otveta API: + space (the two adjacent literals are joined without a space)\<close>.\<close>

definition text_endpoint_post :: string where
  "text_endpoint_post =
     '' '' @ [CHR 0xD0, CHR 0xBD, CHR 0xD0, CHR 0xB5, CHR 0xD0, CHR 0xB4, CHR 0xD0, CHR 0xBE] @
     [CHR 0xD1, CHR 0x81, CHR 0xD1, CHR 0x82, CHR 0xD1, CHR 0x83, CHR 0xD0, CHR 0xBF] @
     [CHR 0xD0, CHR 0xB5, CHR 0xD0, CHR 0xBD] @ ''.'' @
     [CHR 0xD0, CHR 0x9D, CHR 0xD0, CHR 0xB5, CHR 0xD0, CHR 0xB4, CHR 0xD0, CHR 0xBE] @
     [CHR 0xD1, CHR 0x81, CHR 0xD1, CHR 0x82, CHR 0xD1, CHR 0x83, CHR 0xD0, CHR 0xBF] @
     [CHR 0xD0, CHR 0xB5, CHR 0xD0, CHR 0xBD] @ ''. '' @
     [CHR 0xD0, CHR 0x9A, CHR 0xD0, CHR 0xBE, CHR 0xD0, CHR 0xB4] @ '' '' @
     [CHR 0xD0, CHR 0xBE, CHR 0xD1, CHR 0x82, CHR 0xD0, CHR 0xB2, CHR 0xD0, CHR 0xB5] @
     [CHR 0xD1, CHR 0x82, CHR 0xD0, CHR 0xB0] @ '' API: ''"

text \<open>Line 64: \<^verbatim>\<open>Nevernyi kod otveta servera. + space\<close>.\<close>

definition text_bad_code :: string where
  "text_bad_code =
     [CHR 0xD0, CHR 0x9D, CHR 0xD0, CHR 0xB5, CHR 0xD0, CHR 0xB2, CHR 0xD0, CHR 0xB5] @
     [CHR 0xD1, CHR 0x80, CHR 0xD0, CHR 0xBD, CHR 0xD1, CHR 0x8B, CHR 0xD0, CHR 0xB9] @ '' '' @
     [CHR 0xD0, CHR 0xBA, CHR 0xD0, CHR 0xBE, CHR 0xD0, CHR 0xB4] @ '' '' @
     [CHR 0xD0, CHR 0xBE, CHR 0xD1, CHR 0x82, CHR 0xD0, CHR 0xB2, CHR 0xD0, CHR 0xB5] @
     [CHR 0xD1, CHR 0x82, CHR 0xD0, CHR 0xB0] @ '' '' @
     [CHR 0xD1, CHR 0x81, CHR 0xD0, CHR 0xB5, CHR 0xD1, CHR 0x80, CHR 0xD0, CHR 0xB2] @
     [CHR 0xD0, CHR 0xB5, CHR 0xD1, CHR 0x80, CHR 0xD0, CHR 0xB0] @ ''. ''"

text \<open>Line 70: \<^verbatim>\<open>Otvet ne soderzhit validnyi JSON\<close>.\<close>

definition text_bad_json :: string where
  "text_bad_json =
     [CHR 0xD0, CHR 0x9E, CHR 0xD1, CHR 0x82, CHR 0xD0, CHR 0xB2, CHR 0xD0, CHR 0xB5] @
     [CHR 0xD1, CHR 0x82] @ '' '' @ [CHR 0xD0, CHR 0xBD, CHR 0xD0, CHR 0xB5] @ '' '' @
     [CHR 0xD1, CHR 0x81, CHR 0xD0, CHR 0xBE, CHR 0xD0, CHR 0xB4, CHR 0xD0, CHR 0xB5] @
     [CHR 0xD1, CHR 0x80, CHR 0xD0, CHR 0xB6, CHR 0xD0, CHR 0xB8, CHR 0xD1, CHR 0x82] @ '' '' @
     [CHR 0xD0, CHR 0xB2, CHR 0xD0, CHR 0xB0, CHR 0xD0, CHR 0xBB, CHR 0xD0, CHR 0xB8] @
     [CHR 0xD0, CHR 0xB4, CHR 0xD0, CHR 0xBD, CHR 0xD1, CHR 0x8B, CHR 0xD0, CHR 0xB9] @ '' JSON''"

text \<open>Line 76 and 99: \<^verbatim>\<open>Otvet ne yavlyaetsya slovarem!\<close>.\<close>

definition text_not_dict :: string where
  "text_not_dict =
     [CHR 0xD0, CHR 0x9E, CHR 0xD1, CHR 0x82, CHR 0xD0, CHR 0xB2, CHR 0xD0, CHR 0xB5] @
     [CHR 0xD1, CHR 0x82] @ '' '' @ [CHR 0xD0, CHR 0xBD, CHR 0xD0, CHR 0xB5] @ '' '' @
     [CHR 0xD1, CHR 0x8F, CHR 0xD0, CHR 0xB2, CHR 0xD0, CHR 0xBB, CHR 0xD1, CHR 0x8F] @
     [CHR 0xD0, CHR 0xB5, CHR 0xD1, CHR 0x82, CHR 0xD1, CHR 0x81, CHR 0xD1, CHR 0x8F] @ '' '' @
     [CHR 0xD1, CHR 0x81, CHR 0xD0, CHR 0xBB, CHR 0xD0, CHR 0xBE, CHR 0xD0, CHR 0xB2] @
     [CHR 0xD0, CHR 0xB0, CHR 0xD1, CHR 0x80, CHR 0xD0, CHR 0xB5, CHR 0xD0, CHR 0xBC] @ ''!''"

text \<open>Line 80: \<^verbatim>\<open>Klyucha homeworks net v slovare.\<close>.\<close>

definition text_no_homeworks_key :: string where
  "text_no_homeworks_key =
     [CHR 0xD0, CHR 0x9A, CHR 0xD0, CHR 0xBB, CHR 0xD1, CHR 0x8E, CHR 0xD1, CHR 0x87] @
     [CHR 0xD0, CHR 0xB0] @ '' homeworks '' @
     [CHR 0xD0, CHR 0xBD, CHR 0xD0, CHR 0xB5, CHR 0xD1, CHR 0x82] @ '' '' @ [CHR 0xD0, CHR 0xB2] @
     '' '' @ [CHR 0xD1, CHR 0x81, CHR 0xD0, CHR 0xBB, CHR 0xD0, CHR 0xBE, CHR 0xD0, CHR 0xB2] @
     [CHR 0xD0, CHR 0xB0, CHR 0xD1, CHR 0x80, CHR 0xD0, CHR 0xB5] @ ''.''"

text \<open>Line 84: \<^verbatim>\<open>Domashnie raboty ne yavlyayutsya spiskom!\<close>.\<close>

definition text_not_list :: string where
  "text_not_list =
     [CHR 0xD0, CHR 0x94, CHR 0xD0, CHR 0xBE, CHR 0xD0, CHR 0xBC, CHR 0xD0, CHR 0xB0] @
     [CHR 0xD1, CHR 0x88, CHR 0xD0, CHR 0xBD, CHR 0xD0, CHR 0xB8, CHR 0xD0, CHR 0xB5] @ '' '' @
     [CHR 0xD1, CHR 0x80, CHR 0xD0, CHR 0xB0, CHR 0xD0, CHR 0xB1, CHR 0xD0, CHR 0xBE] @
     [CHR 0xD1, CHR 0x82, CHR 0xD1, CHR 0x8B] @ '' '' @ [CHR 0xD0, CHR 0xBD, CHR 0xD0, CHR 0xB5] @
     '' '' @ [CHR 0xD1, CHR 0x8F, CHR 0xD0, CHR 0xB2, CHR 0xD0, CHR 0xBB, CHR 0xD1, CHR 0x8F] @
     [CHR 0xD1, CHR 0x8E, CHR 0xD1, CHR 0x82, CHR 0xD1, CHR 0x81, CHR 0xD1, CHR 0x8F] @ '' '' @
     [CHR 0xD1, CHR 0x81, CHR 0xD0, CHR 0xBF, CHR 0xD0, CHR 0xB8, CHR 0xD1, CHR 0x81] @
     [CHR 0xD0, CHR 0xBA, CHR 0xD0, CHR 0xBE, CHR 0xD0, CHR 0xBC] @ ''!''"

text \<open>Line 95: \<^verbatim>\<open>Klyucha homework_status net v slovare.\<close>.\<close>

definition text_no_status_key :: string where
  "text_no_status_key =
     [CHR 0xD0, CHR 0x9A, CHR 0xD0, CHR 0xBB, CHR 0xD1, CHR 0x8E, CHR 0xD1, CHR 0x87] @
     [CHR 0xD0, CHR 0xB0] @ '' homework_status '' @
     [CHR 0xD0, CHR 0xBD, CHR 0xD0, CHR 0xB5, CHR 0xD1, CHR 0x82] @ '' '' @ [CHR 0xD0, CHR 0xB2] @
     '' '' @ [CHR 0xD1, CHR 0x81, CHR 0xD0, CHR 0xBB, CHR 0xD0, CHR 0xBE, CHR 0xD0, CHR 0xB2] @
     [CHR 0xD0, CHR 0xB0, CHR 0xD1, CHR 0x80, CHR 0xD0, CHR 0xB5] @ ''.''"

text \<open>Line 105: \<^verbatim>\<open>Neozhidannyi status domashnei raboty\<close>.\<close>

definition text_unexpected_status :: string where
  "text_unexpected_status =
     [CHR 0xD0, CHR 0x9D, CHR 0xD0, CHR 0xB5, CHR 0xD0, CHR 0xBE, CHR 0xD0, CHR 0xB6] @
     [CHR 0xD0, CHR 0xB8, CHR 0xD0, CHR 0xB4, CHR 0xD0, CHR 0xB0, CHR 0xD0, CHR 0xBD] @
     [CHR 0xD0, CHR 0xBD, CHR 0xD1, CHR 0x8B, CHR 0xD0, CHR 0xB9] @ '' '' @
     [CHR 0xD1, CHR 0x81, CHR 0xD1, CHR 0x82, CHR 0xD0, CHR 0xB0, CHR 0xD1, CHR 0x82] @
     [CHR 0xD1, CHR 0x83, CHR 0xD1, CHR 0x81] @ '' '' @
     [CHR 0xD0, CHR 0xB4, CHR 0xD0, CHR 0xBE, CHR 0xD0, CHR 0xBC, CHR 0xD0, CHR 0xB0] @
     [CHR 0xD1, CHR 0x88, CHR 0xD0, CHR 0xBD, CHR 0xD0, CHR 0xB5, CHR 0xD0, CHR 0xB9] @ '' '' @
     [CHR 0xD1, CHR 0x80, CHR 0xD0, CHR 0xB0, CHR 0xD0, CHR 0xB1, CHR 0xD0, CHR 0xBE] @
     [CHR 0xD1, CHR 0x82, CHR 0xD1, CHR 0x8B]"

text \<open>Line 107: \<^verbatim>\<open>Izmenilsya status proverki raboty + space + double quote\<close>.\<close>

definition text_changed :: string where
  "text_changed =
     [CHR 0xD0, CHR 0x98, CHR 0xD0, CHR 0xB7, CHR 0xD0, CHR 0xBC, CHR 0xD0, CHR 0xB5] @
     [CHR 0xD0, CHR 0xBD, CHR 0xD0, CHR 0xB8, CHR 0xD0, CHR 0xBB, CHR 0xD1, CHR 0x81] @
     [CHR 0xD1, CHR 0x8F] @ '' '' @
     [CHR 0xD1, CHR 0x81, CHR 0xD1, CHR 0x82, CHR 0xD0, CHR 0xB0, CHR 0xD1, CHR 0x82] @
     [CHR 0xD1, CHR 0x83, CHR 0xD1, CHR 0x81] @ '' '' @
     [CHR 0xD0, CHR 0xBF, CHR 0xD1, CHR 0x80, CHR 0xD0, CHR 0xBE, CHR 0xD0, CHR 0xB2] @
     [CHR 0xD0, CHR 0xB5, CHR 0xD1, CHR 0x80, CHR 0xD0, CHR 0xBA, CHR 0xD0, CHR 0xB8] @ '' '' @
     [CHR 0xD1, CHR 0x80, CHR 0xD0, CHR 0xB0, CHR 0xD0, CHR 0xB1, CHR 0xD0, CHR 0xBE] @
     [CHR 0xD1, CHR 0x82, CHR 0xD1, CHR 0x8B] @ '' '' @ [CHR 0x22]"

text \<open>Line 107: \<^verbatim>\<open>double quote + full stop + space\<close>.\<close>

definition text_quote_dot :: string where
  "text_quote_dot =
     [CHR 0x22] @ ''. ''"

text \<open>Line 114: \<^verbatim>\<open>Otsutstvuet obyazatelnaya peremennaya okruzheniya\<close>.\<close>

definition text_missing_env :: string where
  "text_missing_env =
     [CHR 0xD0, CHR 0x9E, CHR 0xD1, CHR 0x82, CHR 0xD1, CHR 0x81, CHR 0xD1, CHR 0x83] @
     [CHR 0xD1, CHR 0x82, CHR 0xD1, CHR 0x81, CHR 0xD1, CHR 0x82, CHR 0xD0, CHR 0xB2] @
     [CHR 0xD1, CHR 0x83, CHR 0xD0, CHR 0xB5, CHR 0xD1, CHR 0x82] @ '' '' @
     [CHR 0xD0, CHR 0xBE, CHR 0xD0, CHR 0xB1, CHR 0xD1, CHR 0x8F, CHR 0xD0, CHR 0xB7] @
     [CHR 0xD0, CHR 0xB0, CHR 0xD1, CHR 0x82, CHR 0xD0, CHR 0xB5, CHR 0xD0, CHR 0xBB] @
     [CHR 0xD1, CHR 0x8C, CHR 0xD0, CHR 0xBD, CHR 0xD0, CHR 0xB0, CHR 0xD1, CHR 0x8F] @ '' '' @
     [CHR 0xD0, CHR 0xBF, CHR 0xD0, CHR 0xB5, CHR 0xD1, CHR 0x80, CHR 0xD0, CHR 0xB5] @
     [CHR 0xD0, CHR 0xBC, CHR 0xD0, CHR 0xB5, CHR 0xD0, CHR 0xBD, CHR 0xD0, CHR 0xBD] @
     [CHR 0xD0, CHR 0xB0, CHR 0xD1, CHR 0x8F] @ '' '' @
     [CHR 0xD0, CHR 0xBE, CHR 0xD0, CHR 0xBA, CHR 0xD1, CHR 0x80, CHR 0xD1, CHR 0x83] @
     [CHR 0xD0, CHR 0xB6, CHR 0xD0, CHR 0xB5, CHR 0xD0, CHR 0xBD, CHR 0xD0, CHR 0xB8] @
     [CHR 0xD1, CHR 0x8F]"

text \<open>Line 121-122: \<^verbatim>\<open>Peremennye okruzheniya zadany nekorrektno ili otsutsvuyut\<close>.\<close>

definition text_bad_env :: string where
  "text_bad_env =
     [CHR 0xD0, CHR 0x9F, CHR 0xD0, CHR 0xB5, CHR 0xD1, CHR 0x80, CHR 0xD0, CHR 0xB5] @
     [CHR 0xD0, CHR 0xBC, CHR 0xD0, CHR 0xB5, CHR 0xD0, CHR 0xBD, CHR 0xD0, CHR 0xBD] @
     [CHR 0xD1, CHR 0x8B, CHR 0xD0, CHR 0xB5] @ '' '' @
     [CHR 0xD0, CHR 0xBE, CHR 0xD0, CHR 0xBA, CHR 0xD1, CHR 0x80, CHR 0xD1, CHR 0x83] @
     [CHR 0xD0, CHR 0xB6, CHR 0xD0, CHR 0xB5, CHR 0xD0, CHR 0xBD, CHR 0xD0, CHR 0xB8] @
     [CHR 0xD1, CHR 0x8F] @ '' '' @
     [CHR 0xD0, CHR 0xB7, CHR 0xD0, CHR 0xB0, CHR 0xD0, CHR 0xB4, CHR 0xD0, CHR 0xB0] @
     [CHR 0xD0, CHR 0xBD, CHR 0xD1, CHR 0x8B] @ '' '' @
     [CHR 0xD0, CHR 0xBD, CHR 0xD0, CHR 0xB5, CHR 0xD0, CHR 0xBA, CHR 0xD0, CHR 0xBE] @
     [CHR 0xD1, CHR 0x80, CHR 0xD1, CHR 0x80, CHR 0xD0, CHR 0xB5, CHR 0xD0, CHR 0xBA] @
     [CHR 0xD1, CHR 0x82, CHR 0xD0, CHR 0xBD, CHR 0xD0, CHR 0xBE] @ '' '' @
     [CHR 0xD0, CHR 0xB8, CHR 0xD0, CHR 0xBB, CHR 0xD0, CHR 0xB8] @ '' '' @
     [CHR 0xD0, CHR 0xBE, CHR 0xD1, CHR 0x82, CHR 0xD1, CHR 0x81, CHR 0xD1, CHR 0x83] @
     [CHR 0xD1, CHR 0x82, CHR 0xD1, CHR 0x81, CHR 0xD0, CHR 0xB2, CHR 0xD1, CHR 0x83] @
     [CHR 0xD1, CHR 0x8E, CHR 0xD1, CHR 0x82]"

text \<open>Line 137: \<^verbatim>\<open>Izmenenii net, + space\<close>.\<close>

definition text_no_changes_pre :: string where
  "text_no_changes_pre =
     [CHR 0xD0, CHR 0x98, CHR 0xD0, CHR 0xB7, CHR 0xD0, CHR 0xBC, CHR 0xD0, CHR 0xB5] @
     [CHR 0xD0, CHR 0xBD, CHR 0xD0, CHR 0xB5, CHR 0xD0, CHR 0xBD, CHR 0xD0, CHR 0xB8] @
     [CHR 0xD0, CHR 0xB9] @ '' '' @ [CHR 0xD0, CHR 0xBD, CHR 0xD0, CHR 0xB5, CHR 0xD1, CHR 0x82] @
     '', ''"

text \<open>Line 137: \<^verbatim>\<open>space + sekund, proveryaem API\<close>.\<close>

definition text_no_changes_post :: string where
  "text_no_changes_post =
     '' '' @ [CHR 0xD1, CHR 0x81, CHR 0xD0, CHR 0xB5, CHR 0xD0, CHR 0xBA, CHR 0xD1, CHR 0x83] @
     [CHR 0xD0, CHR 0xBD, CHR 0xD0, CHR 0xB4] @ '', '' @
     [CHR 0xD0, CHR 0xBF, CHR 0xD1, CHR 0x80, CHR 0xD0, CHR 0xBE, CHR 0xD0, CHR 0xB2] @
     [CHR 0xD0, CHR 0xB5, CHR 0xD1, CHR 0x80, CHR 0xD1, CHR 0x8F, CHR 0xD0, CHR 0xB5] @
     [CHR 0xD0, CHR 0xBC] @ '' API''"

text \<open>Line 139: \<^verbatim>\<open>Sboi v rabote programmy: + space\<close>.\<close>

definition text_failure :: string where
  "text_failure =
     [CHR 0xD0, CHR 0xA1, CHR 0xD0, CHR 0xB1, CHR 0xD0, CHR 0xBE, CHR 0xD0, CHR 0xB9] @ '' '' @
     [CHR 0xD0, CHR 0xB2] @ '' '' @
     [CHR 0xD1, CHR 0x80, CHR 0xD0, CHR 0xB0, CHR 0xD0, CHR 0xB1, CHR 0xD0, CHR 0xBE] @
     [CHR 0xD1, CHR 0x82, CHR 0xD0, CHR 0xB5] @ '' '' @
     [CHR 0xD0, CHR 0xBF, CHR 0xD1, CHR 0x80, CHR 0xD0, CHR 0xBE, CHR 0xD0, CHR 0xB3] @
     [CHR 0xD1, CHR 0x80, CHR 0xD0, CHR 0xB0, CHR 0xD0, CHR 0xBC, CHR 0xD0, CHR 0xBC] @
     [CHR 0xD1, CHR 0x8B] @ '': ''"
section \<open>The environment of one poll cycle\<close>

text \<open>
  What the outside world answers during one iteration of the loop:
  \<^item> \<^verbatim>\<open>requests.get\<close> raises, or returns a response with a status code whose
    \<^verbatim>\<open>json()\<close> raises or returns the decoded body;
  \<^item> \<^verbatim>\<open>bot.send_message\<close> returns (\<open>None\<close>) or raises (\<open>Some error\<close>).
\<close>

datatype http_outcome =
    GetRaises exn
  | GetReturns int "exn + json"

record world =
  http :: http_outcome
  telegram :: "exn option"

section \<open>The functions of \<^verbatim>\<open>homework.py\<close>\<close>

subsection \<open>\<^verbatim>\<open>send_message\<close> (lines 41 to 47)\<close>

definition send_message :: "config \<Rightarrow> exn option \<Rightarrow> string \<Rightarrow> unit result" where
  "send_message cfg bot' message =
     (case bot' of
        None \<Rightarrow> ([Sent (TELEGRAM_CHAT_ID cfg) message, Log INFO (Text text_sent)], Inr ())
      | Some error \<Rightarrow>
          if isinstance error TelegramError
          then ([SendFailed (TELEGRAM_CHAT_ID cfg) message error, Log ERROR (Text text_not_sent)], Inr ())
          else ([SendFailed (TELEGRAM_CHAT_ID cfg) message error], Inl error))"

subsection \<open>\<^verbatim>\<open>get_api_answer\<close> (lines 50 to 70)\<close>

definition get_api_answer :: "config \<Rightarrow> http_outcome \<Rightarrow> int \<Rightarrow> json result" where
  "get_api_answer cfg reply current_timestamp =
     (let params = [(''from_date'', current_timestamp)];
          request = HttpGet ENDPOINT (HEADERS cfg) params
      in case reply of
           GetRaises error \<Rightarrow>
             if isinstance error ConnectTimeout
             then ([request, Log ERROR (TextExn text_timeout error)], Inl error)
             else if isinstance error RequestException
             then ([request, Log ERROR (TextExn text_connection error)], Inl error)
             else ([request], Inl error)
         | GetReturns status_code body \<Rightarrow>
             if status_code \<noteq> 200
             then ([request,
                    Log ERROR (Text (text_endpoint_pre @ ENDPOINT @ text_endpoint_post @ str_int status_code))],
                   Inl (Exn HTTPError (Msg (text_bad_code @ str_int status_code))))
             else (case body of
                     Inr decoded \<Rightarrow> ([request], Inr decoded)
                   | Inl error \<Rightarrow>
                       if isinstance error ValueError
                       then ([request, Log ERROR (TextExn [] error)], Inl (Exn ValueError (Msg text_bad_json)))
                       else ([request], Inl error)))"

subsection \<open>\<^verbatim>\<open>check_response\<close> (lines 73 to 87)\<close>

definition check_response :: "json \<Rightarrow> json result" where
  "check_response response =
     (case response of
        JDict d \<Rightarrow>
          (case map_of d ''homeworks'' of
             None \<Rightarrow> ([Log ERROR (Text text_no_homeworks_key)], Inl (Exn KeyError (Msg text_no_homeworks_key)))
           | Some homeworks \<Rightarrow>
               (case homeworks of
                  JList _ \<Rightarrow> ([], Inr homeworks)
                | _ \<Rightarrow> ([Log ERROR (Text text_not_list)], Inl (Exn TypeError (Msg text_not_list)))))
      | _ \<Rightarrow> ([Log ERROR (Text text_not_dict)], Inl (Exn TypeError (Msg text_not_dict))))"

subsection \<open>\<^verbatim>\<open>parse_status\<close> (lines 90 to 107)\<close>

text \<open>
  \<^verbatim>\<open>homework.get\<close>: only a dictionary has the attribute; its \<^verbatim>\<open>get\<close> returns
  \<^verbatim>\<open>None\<close> for a key that is not there.
\<close>

definition attr_get :: "json \<Rightarrow> exn + (string \<Rightarrow> json)" where
  "attr_get obj =
     (case obj of
        JDict d \<Rightarrow> Inr (\<lambda>key. case map_of d key of None \<Rightarrow> JNull | Some v \<Rightarrow> v)
      | _ \<Rightarrow> Inl (Exn AttributeError NoText))"

definition isinstance_dict :: "json \<Rightarrow> bool" where
  "isinstance_dict obj = (case obj of JDict _ \<Rightarrow> True | _ \<Rightarrow> False)"

text \<open>
  \<^verbatim>\<open>HOMEWORK_STATUSES[key]\<close>: a list or a dictionary is unhashable
  (\<^verbatim>\<open>TypeError\<close>); any other key that is not one of the three strings raises
  \<^verbatim>\<open>KeyError(key)\<close>.
\<close>

definition statuses_getitem :: "json \<Rightarrow> exn + string" where
  "statuses_getitem key =
     (case key of
        JList _ \<Rightarrow> Inl (Exn TypeError NoText)
      | JDict _ \<Rightarrow> Inl (Exn TypeError NoText)
      | JStr s \<Rightarrow>
          (case map_of HOMEWORK_STATUSES s of
             Some verdict \<Rightarrow> Inr verdict
           | None \<Rightarrow> Inl (Exn KeyError (Obj key)))
      | _ \<Rightarrow> Inl (Exn KeyError (Obj key)))"

definition parse_status :: "(json \<Rightarrow> string) \<Rightarrow> json \<Rightarrow> string result" where
  "parse_status py_repr homework =
     (case attr_get homework of
        Inl error \<Rightarrow> ([], Inl error)
      | Inr get \<Rightarrow>
          (let homework_name = get ''homework_name'';
               homework_status = get ''status''
           in if homework_status = JNull
              then ([Log ERROR (Text text_no_status_key)], Inl (Exn KeyError (Msg text_no_status_key)))
              else if \<not> isinstance_dict homework
              then ([Log ERROR (Text text_not_dict)], Inl (Exn TypeError (Msg text_not_dict)))
              else (case statuses_getitem homework_status of
                      Inl error \<Rightarrow>
                        if isinstance error UnexpectedStatusError
                        then ([], Inl (Exn UnexpectedStatusError (Msg text_unexpected_status)))
                        else ([], Inl error)
                    | Inr verdict \<Rightarrow>
                        ([], Inr (text_changed @ py_format py_repr homework_name @ text_quote_dot @ verdict)))))"

subsection \<open>\<^verbatim>\<open>check_tokens\<close> (lines 110 to 115)\<close>

definition truthy :: "string option \<Rightarrow> bool" where
  "truthy v = (case v of None \<Rightarrow> False | Some s \<Rightarrow> s \<noteq> [])"

definition check_tokens :: "config \<Rightarrow> event list \<times> bool" where
  "check_tokens cfg =
     (if list_all truthy [PRACTICUM_TOKEN cfg, TELEGRAM_TOKEN cfg, TELEGRAM_CHAT_ID cfg]
      then ([], True)
      else ([Log CRITICAL (Text text_missing_env)], False))"

subsection \<open>\<^verbatim>\<open>main\<close> (lines 118 to 143)\<close>

text \<open>The variables of \<^verbatim>\<open>main\<close> that live across iterations (lines 125 to 127).\<close>

record loop_state =
  current_timestamp :: int
  status :: string
  errors :: bool

definition initial_state :: "int \<Rightarrow> loop_state" where
  "initial_state now = \<lparr>current_timestamp = now, status = ''reviewing'', errors = True\<rparr>"

text \<open>
  In line 131 \<^verbatim>\<open>homework\<close> is what \<^verbatim>\<open>parse_status\<close> returns, a \<^verbatim>\<open>str\<close>.
  Subscripting a \<^verbatim>\<open>str\<close> with the string \<^verbatim>\<open>'status'\<close> (lines 132 and 135) raises
  \<^verbatim>\<open>TypeError\<close>: string indices must be integers.
\<close>

definition str_getitem :: "string \<Rightarrow> string \<Rightarrow> exn + string" where
  "str_getitem s key = Inl (Exn TypeError NoText)"

text \<open>
  The body of the \<^verbatim>\<open>try\<close> (lines 130 to 137). The only assignment to a variable of
  the loop is the last statement of the \<^verbatim>\<open>if\<close> (line 135), and the log call after it does
  not raise, so an iteration that raises leaves the loop state as it was.
\<close>

definition poll_body :: "config \<Rightarrow> (json \<Rightarrow> string) \<Rightarrow> world \<Rightarrow> loop_state \<Rightarrow> loop_state result" where
  "poll_body cfg py_repr w s =
     seq (get_api_answer cfg (http w) (current_timestamp s)) (\<lambda>response.
     seq (parse_status py_repr response) (\<lambda>homework.
     seq (if homework \<noteq> []
          then seq ([], str_getitem homework ''status'') (\<lambda>homework_status.
               if status s \<noteq> homework_status
               then seq (parse_status py_repr (JStr homework)) (\<lambda>message.
                    seq (send_message cfg (telegram w) message) (\<lambda>_.
                    seq ([], str_getitem homework ''status'') (\<lambda>new_status.
                    ([], Inr (s\<lparr>status := new_status\<rparr>)))))
               else ([], Inr s))
          else ([], Inr s)) (\<lambda>s'.
     ([Log INFO (Text (text_no_changes_pre @ str_int RETRY_TIME @ text_no_changes_post))], Inr s'))))"

text \<open>
  One iteration of \<^verbatim>\<open>while True\<close> (lines 129 to 143): the \<^verbatim>\<open>try\<close> body, the handler
  \<^verbatim>\<open>except Exception\<close> with its guarded log call (lines 138 to 141), and the
  \<^verbatim>\<open>else\<close> clause, which runs only when the body did not raise (lines 142 and 143).
  \<open>Inl\<close> is an exception that leaves the loop.
\<close>

definition poll_cycle :: "config \<Rightarrow> (json \<Rightarrow> string) \<Rightarrow> world \<Rightarrow> loop_state \<Rightarrow> loop_state result" where
  "poll_cycle cfg py_repr w s =
     (case poll_body cfg py_repr w s of
        (ev, Inl error) \<Rightarrow>
          if isinstance error Exception
          then (ev @ (if errors s \<noteq> errors s then [Log ERROR (TextExn text_failure error)] else []), Inr s)
          else (ev, Inl error)
      | (ev, Inr s') \<Rightarrow> (ev @ [Sleep RETRY_TIME], Inr s'))"

text \<open>
  The loop never leaves by itself, so it is run on the answers of the world for finitely many
  iterations: after them the process is still \<open>Running\<close>, unless an exception left the
  loop before (\<open>Crashed\<close>). \<open>Exited\<close> is the \<^verbatim>\<open>exit()\<close> of line 123.
\<close>

datatype run = Exited | Crashed exn | Running loop_state

fun main_loop :: "config \<Rightarrow> (json \<Rightarrow> string) \<Rightarrow> world list \<Rightarrow> loop_state \<Rightarrow> event list \<times> run" where
  "main_loop cfg py_repr [] s = ([], Running s)"
| "main_loop cfg py_repr (w # ws) s =
     (case poll_cycle cfg py_repr w s of
        (ev, Inl error) \<Rightarrow> (ev, Crashed error)
      | (ev, Inr s') \<Rightarrow> (case main_loop cfg py_repr ws s' of (ev', r) \<Rightarrow> (ev @ ev', r)))"

text \<open>
  \<^verbatim>\<open>main\<close>: \<open>bot_new\<close> is what the constructor \<^verbatim>\<open>telegram.Bot\<close> of line 124 does
  (\<open>None\<close>: it returns), \<open>now\<close> is \<^verbatim>\<open>int(time.time())\<close> of line 125.
\<close>

definition main :: "config \<Rightarrow> (json \<Rightarrow> string) \<Rightarrow> exn option \<Rightarrow> int \<Rightarrow> world list \<Rightarrow> event list \<times> run" where
  "main cfg py_repr bot_new now ws =
     (case check_tokens cfg of
        (ev, ok) \<Rightarrow>
          if \<not> ok then (ev @ [Log CRITICAL (Text text_bad_env)], Exited)
          else (case bot_new of
                  Some error \<Rightarrow> (ev, Crashed error)
                | None \<Rightarrow> (case main_loop cfg py_repr ws (initial_state now) of (ev', r) \<Rightarrow> (ev @ ev', r))))"

section \<open>Observations on a trace\<close>

text \<open>
  The notifications that were delivered, the query parameters of the fetches, and the
  durations slept, each in the order of the trace.
\<close>

fun sent_messages :: "event list \<Rightarrow> (string option \<times> string) list" where
  "sent_messages [] = []"
| "sent_messages (Sent chat message # ev) = (chat, message) # sent_messages ev"
| "sent_messages (_ # ev) = sent_messages ev"

fun fetch_params :: "event list \<Rightarrow> (string \<times> int) list list" where
  "fetch_params [] = []"
| "fetch_params (HttpGet url headers params # ev) = params # fetch_params ev"
| "fetch_params (_ # ev) = fetch_params ev"

fun sleeps :: "event list \<Rightarrow> int list" where
  "sleeps [] = []"
| "sleeps (Sleep seconds # ev) = seconds # sleeps ev"
| "sleeps (_ # ev) = sleeps ev"

section \<open>Traces of the functions\<close>

lemma sent_messages_append: "sent_messages (xs @ ys) = sent_messages xs @ sent_messages ys"
  by (induction xs rule: sent_messages.induct) simp_all

lemma fetch_params_append: "fetch_params (xs @ ys) = fetch_params xs @ fetch_params ys"
  by (induction xs rule: fetch_params.induct) simp_all

lemma sleeps_append: "sleeps (xs @ ys) = sleeps xs @ sleeps ys"
  by (induction xs rule: sleeps.induct) simp_all

lemma isinstance_Exception: "isinstance error Exception"
  by (cases error) (simp add: isinstance_def)

lemma get_api_answer_trace:
  assumes "get_api_answer cfg reply t = (ev, r)"
  shows "sent_messages ev = [] \<and> fetch_params ev = [[(''from_date'', t)]] \<and> sleeps ev = []"
  using assms
  by (auto simp: get_api_answer_def Let_def split: http_outcome.splits if_splits sum.splits)

lemma parse_status_trace:
  assumes "parse_status py_repr x = (ev, r)"
  shows "sent_messages ev = [] \<and> fetch_params ev = [] \<and> sleeps ev = []"
  using assms
  by (auto simp: parse_status_def Let_def split: sum.splits if_splits)

lemma text_changed_nonempty: "text_changed \<noteq> []"
  by (simp add: text_changed_def)

lemma parse_status_nonempty:
  assumes "parse_status py_repr x = (ev, Inr message)"
  shows "message \<noteq> []"
  using assms text_changed_nonempty
  by (auto simp: parse_status_def Let_def split: sum.splits if_splits)

lemma poll_body_raises:
  "\<exists>ev error. poll_body cfg py_repr w s = (ev, Inl error) \<and> sent_messages ev = []
     \<and> fetch_params ev = [[(''from_date'', current_timestamp s)]] \<and> sleeps ev = []"
proof -
  obtain ev1 r1 where g: "get_api_answer cfg (http w) (current_timestamp s) = (ev1, r1)"
    by fastforce
  note t1 = get_api_answer_trace [OF g]
  show ?thesis
  proof (cases r1)
    case (Inl error)
    with g t1 show ?thesis
      by (simp add: poll_body_def seq_def)
  next
    case (Inr response)
    obtain ev2 r2 where p: "parse_status py_repr response = (ev2, r2)"
      by fastforce
    note t2 = parse_status_trace [OF p]
    show ?thesis
    proof (cases r2)
      case (Inl error)
      with g p t1 t2 Inr show ?thesis
        by (simp add: poll_body_def seq_def sent_messages_append fetch_params_append sleeps_append)
    next
      case Inr2: (Inr homework)
      with p have "homework \<noteq> []"
        using parse_status_nonempty by blast
      with g p t1 t2 Inr Inr2 show ?thesis
        by (simp add: poll_body_def seq_def str_getitem_def sent_messages_append fetch_params_append sleeps_append)
    qed
  qed
qed

lemma poll_cycle_shape:
  "\<exists>ev. poll_cycle cfg py_repr w s = (ev, Inr s) \<and> sent_messages ev = []
     \<and> fetch_params ev = [[(''from_date'', current_timestamp s)]] \<and> sleeps ev = []"
proof -
  from poll_body_raises [of cfg py_repr w s] obtain ev error
    where b: "poll_body cfg py_repr w s = (ev, Inl error)"
      and t: "sent_messages ev = []" "fetch_params ev = [[(''from_date'', current_timestamp s)]]" "sleeps ev = []"
    by blast
  from b t show ?thesis
    by (simp add: poll_cycle_def isinstance_Exception)
qed

lemma main_loop_shape:
  "\<exists>ev. main_loop cfg py_repr ws s = (ev, Running s) \<and> sent_messages ev = []
     \<and> fetch_params ev = replicate (length ws) [(''from_date'', current_timestamp s)] \<and> sleeps ev = []"
proof (induction ws)
  case Nil
  show ?case by simp
next
  case (Cons w ws)
  from poll_cycle_shape [of cfg py_repr w s] obtain ev1
    where c: "poll_cycle cfg py_repr w s = (ev1, Inr s)"
      and t: "sent_messages ev1 = []" "fetch_params ev1 = [[(''from_date'', current_timestamp s)]]" "sleeps ev1 = []"
    by blast
  from Cons.IH obtain ev2
    where l: "main_loop cfg py_repr ws s = (ev2, Running s)"
      and u: "sent_messages ev2 = []" "fetch_params ev2 = replicate (length ws) [(''from_date'', current_timestamp s)]" "sleeps ev2 = []"
    by blast
  from c l t u show ?case
    by (simp add: sent_messages_append fetch_params_append sleeps_append)
qed

section \<open>The poll cycle\<close>

text \<open>
  C1. The claim: for a valid envelope whose first homework record has a known status different
  from the last known status, one poll cycle sends exactly one notification with the homework
  name and the verdict text and updates the last known status; with last known status
  \<^verbatim>\<open>reviewing\<close> and the envelope
  \<^verbatim>\<open>{"homeworks":[{"homework_name":"hw1","status":"approved"}]}\<close> the message is
  the sentence for \<^verbatim>\<open>hw1\<close> and \<^verbatim>\<open>approved\<close>.
  What the program does on that envelope: line 131 hands the envelope itself to
  \<^verbatim>\<open>parse_status\<close>, which finds no \<^verbatim>\<open>status\<close> key in it and raises
  \<^verbatim>\<open>KeyError\<close>; the cycle delivers nothing, does not sleep, and leaves the last known
  status at \<^verbatim>\<open>reviewing\<close>. \<^verbatim>\<open>check_response\<close> would return the list of
  homeworks, and \<^verbatim>\<open>parse_status\<close> on its first record returns exactly the message of
  the claim, but \<^verbatim>\<open>main\<close> calls neither on these values.
\<close>

theorem poll_cycle_valid_envelope:
  "poll_cycle cfg py_repr
     \<lparr>http = GetReturns 200 (Inr (JDict [(''homeworks'',
        JList [JDict [(''homework_name'', JStr ''hw1''), (''status'', JStr ''approved'')]])])),
      telegram = None\<rparr>
     (initial_state now)
   = ([HttpGet ENDPOINT (HEADERS cfg) [(''from_date'', now)], Log ERROR (Text text_no_status_key)],
      Inr (initial_state now))
   \<and> sent_messages (fst (poll_cycle cfg py_repr
         \<lparr>http = GetReturns 200 (Inr (JDict [(''homeworks'',
            JList [JDict [(''homework_name'', JStr ''hw1''), (''status'', JStr ''approved'')]])])),
          telegram = None\<rparr>
         (initial_state now))) = []
   \<and> status (initial_state now) = ''reviewing''
   \<and> check_response (JDict [(''homeworks'',
        JList [JDict [(''homework_name'', JStr ''hw1''), (''status'', JStr ''approved'')]])])
     = ([], Inr (JList [JDict [(''homework_name'', JStr ''hw1''), (''status'', JStr ''approved'')]]))
   \<and> parse_status py_repr (JDict [(''homework_name'', JStr ''hw1''), (''status'', JStr ''approved'')])
     = ([], Inr (
         [CHR 0xD0, CHR 0x98, CHR 0xD0, CHR 0xB7, CHR 0xD0, CHR 0xBC, CHR 0xD0, CHR 0xB5] @
         [CHR 0xD0, CHR 0xBD, CHR 0xD0, CHR 0xB8, CHR 0xD0, CHR 0xBB, CHR 0xD1, CHR 0x81] @
         [CHR 0xD1, CHR 0x8F] @ '' '' @
         [CHR 0xD1, CHR 0x81, CHR 0xD1, CHR 0x82, CHR 0xD0, CHR 0xB0, CHR 0xD1, CHR 0x82] @
         [CHR 0xD1, CHR 0x83, CHR 0xD1, CHR 0x81] @ '' '' @
         [CHR 0xD0, CHR 0xBF, CHR 0xD1, CHR 0x80, CHR 0xD0, CHR 0xBE, CHR 0xD0, CHR 0xB2] @
         [CHR 0xD0, CHR 0xB5, CHR 0xD1, CHR 0x80, CHR 0xD0, CHR 0xBA, CHR 0xD0, CHR 0xB8] @ '' '' @
         [CHR 0xD1, CHR 0x80, CHR 0xD0, CHR 0xB0, CHR 0xD0, CHR 0xB1, CHR 0xD0, CHR 0xBE] @
         [CHR 0xD1, CHR 0x82, CHR 0xD1, CHR 0x8B] @ '' '' @ [CHR 0x22] @ ''hw1'' @ [CHR 0x22] @
         ''. '' @ [CHR 0xD0, CHR 0xA0, CHR 0xD0, CHR 0xB0, CHR 0xD0, CHR 0xB1, CHR 0xD0, CHR 0xBE] @
         [CHR 0xD1, CHR 0x82, CHR 0xD0, CHR 0xB0] @ '' '' @
         [CHR 0xD0, CHR 0xBF, CHR 0xD1, CHR 0x80, CHR 0xD0, CHR 0xBE, CHR 0xD0, CHR 0xB2] @
         [CHR 0xD0, CHR 0xB5, CHR 0xD1, CHR 0x80, CHR 0xD0, CHR 0xB5, CHR 0xD0, CHR 0xBD] @
         [CHR 0xD0, CHR 0xB0] @ '': '' @
         [CHR 0xD1, CHR 0x80, CHR 0xD0, CHR 0xB5, CHR 0xD0, CHR 0xB2, CHR 0xD1, CHR 0x8C] @
         [CHR 0xD1, CHR 0x8E, CHR 0xD0, CHR 0xB5, CHR 0xD1, CHR 0x80, CHR 0xD1, CHR 0x83] @ '' '' @
         [CHR 0xD0, CHR 0xB2, CHR 0xD1, CHR 0x81, CHR 0xD1, CHR 0x91] @ '' '' @
         [CHR 0xD0, CHR 0xBF, CHR 0xD0, CHR 0xBE, CHR 0xD0, CHR 0xBD, CHR 0xD1, CHR 0x80] @
         [CHR 0xD0, CHR 0xB0, CHR 0xD0, CHR 0xB2, CHR 0xD0, CHR 0xB8, CHR 0xD0, CHR 0xBB] @
         [CHR 0xD0, CHR 0xBE, CHR 0xD1, CHR 0x81, CHR 0xD1, CHR 0x8C] @ ''. '' @
         [CHR 0xD0, CHR 0xA3, CHR 0xD1, CHR 0x80, CHR 0xD0, CHR 0xB0] @ ''!''))"
  by (simp add: poll_cycle_def poll_body_def seq_def get_api_answer_def parse_status_def attr_get_def
      isinstance_def initial_state_def check_response_def isinstance_dict_def statuses_getitem_def
      HOMEWORK_STATUSES_def py_format_def text_changed_def text_quote_dot_def verdict_approved_def)

text \<open>
  C2. The claim: when the fetch, validate or translate step raises, the orchestrator logs a
  generic failure message, the loop goes on, and the cycle sleeps for the retry interval before
  the next attempt.
  What the program does when the API answers with status 503: \<^verbatim>\<open>get_api_answer\<close> logs
  its own error and raises; the handler of line 138 catches the exception, its log call is
  guarded by \<^verbatim>\<open>errors != errors\<close>, which is false, and \<^verbatim>\<open>time.sleep\<close> stands in
  the \<^verbatim>\<open>else\<close> clause of the \<^verbatim>\<open>try\<close>, which is skipped after an exception. The
  trace of the cycle holds the request and the client's log record only: no failure message of
  the orchestrator and no sleep. The loop goes on with the state unchanged.
\<close>

theorem poll_cycle_http_503:
  "poll_cycle cfg py_repr \<lparr>http = GetReturns 503 body, telegram = reply\<rparr> s
   = ([HttpGet ENDPOINT (HEADERS cfg) [(''from_date'', current_timestamp s)],
       Log ERROR (Text (text_endpoint_pre @ ENDPOINT @ text_endpoint_post @ ''503''))],
      Inr s)
   \<and> sleeps (fst (poll_cycle cfg py_repr \<lparr>http = GetReturns 503 body, telegram = reply\<rparr> s)) = []
   \<and> Log ERROR (TextExn text_failure (Exn HTTPError (Msg (text_bad_code @ ''503''))))
       \<notin> set (fst (poll_cycle cfg py_repr \<lparr>http = GetReturns 503 body, telegram = reply\<rparr> s))"
  by (simp add: poll_cycle_def poll_body_def seq_def get_api_answer_def isinstance_def str_int_def)

section \<open>The status translator\<close>

text \<open>
  C3. The claim: for a homework record whose status is present but not one of
  \<^verbatim>\<open>approved\<close>, \<^verbatim>\<open>reviewing\<close>, \<^verbatim>\<open>rejected\<close>, \<^verbatim>\<open>parse_status\<close> fails
  with the unexpected-status error and nothing is sent.
  What the program does on \<^verbatim>\<open>{"homework_name": "hw1", "status": "unknown"}\<close>: the
  subscript of line 103 raises \<^verbatim>\<open>KeyError('unknown')\<close>; the clause of line 104 catches
  \<^verbatim>\<open>UnexpectedStatusError\<close> only, which a dictionary never raises, so the
  \<^verbatim>\<open>KeyError\<close> leaves the function and lines 105 and 106 never run.
\<close>

theorem parse_status_unknown_status:
  "parse_status py_repr (JDict [(''homework_name'', JStr ''hw1''), (''status'', JStr ''unknown'')])
   = ([], Inl (Exn KeyError (Obj (JStr ''unknown''))))
   \<and> \<not> isinstance (Exn KeyError (Obj (JStr ''unknown''))) UnexpectedStatusError"
  by (simp add: parse_status_def attr_get_def isinstance_dict_def statuses_getitem_def
      HOMEWORK_STATUSES_def isinstance_def)

text \<open>
  C9. The claim: for an input that is not a mapping, \<^verbatim>\<open>parse_status\<close> fails with the
  not-a-mapping error, the check being made after the status lookup.
  What the program does on a list: the lookup \<^verbatim>\<open>homework.get\<close> of line 92 comes first
  and raises \<^verbatim>\<open>AttributeError\<close>, since only a dictionary has \<^verbatim>\<open>get\<close>; the
  \<^verbatim>\<open>isinstance\<close> check of line 98 and its \<^verbatim>\<open>TypeError\<close> are never reached, and nothing
  is logged.
\<close>

theorem parse_status_of_list:
  "parse_status py_repr (JList xs) = ([], Inl (Exn AttributeError NoText))
   \<and> Exn AttributeError NoText \<noteq> Exn TypeError (Msg text_not_dict)"
  by (simp add: parse_status_def attr_get_def)

text \<open>
  C10. For a record that is a mapping with one of the three known status values and no
  \<^verbatim>\<open>homework_name\<close> key, \<^verbatim>\<open>parse_status\<close> returns, without logging, the sentence
  of line 107 with the text \<^verbatim>\<open>None\<close> where the name belongs, followed by the verdict
  of that status.
\<close>

theorem parse_status_without_name:
  assumes "map_of d ''homework_name'' = None"
    and "map_of d ''status'' = Some (JStr st)"
    and "st \<in> {''approved'', ''reviewing'', ''rejected''}"
  shows "\<exists>verdict. map_of HOMEWORK_STATUSES st = Some verdict
           \<and> parse_status py_repr (JDict d) = ([], Inr (text_changed @ ''None'' @ text_quote_dot @ verdict))"
  using assms
  by (auto simp: parse_status_def attr_get_def isinstance_dict_def statuses_getitem_def
      HOMEWORK_STATUSES_def py_format_def)

theorem parse_status_without_name_witness:
  "map_of [(''status'', JStr ''rejected'')] ''homework_name'' = None
   \<and> map_of [(''status'', JStr ''rejected'')] ''status'' = Some (JStr ''rejected'')
   \<and> ''rejected'' \<in> {''approved'', ''reviewing'', ''rejected''}
   \<and> parse_status (\<lambda>v. []) (JDict [(''status'', JStr ''rejected'')])
       = ([], Inr (text_changed @ ''None'' @ text_quote_dot @ verdict_rejected))"
proof -
  have h1: "map_of [(''status'', JStr ''rejected'')] ''homework_name'' = None"
    by simp
  have h2: "map_of [(''status'', JStr ''rejected'')] ''status'' = Some (JStr ''rejected'')"
    by simp
  have h3: "''rejected'' \<in> {''approved'', ''reviewing'', ''rejected''}"
    by simp
  from parse_status_without_name [OF h1 h2 h3, of "\<lambda>v. []"] h1 h2 h3 show ?thesis
    by (simp add: HOMEWORK_STATUSES_def)
qed

section \<open>The response validator\<close>

text \<open>
  C4. For every input of \<^verbatim>\<open>check_response\<close>: an input that is not a dictionary fails
  with the not-a-mapping \<^verbatim>\<open>TypeError\<close>; a dictionary without the key
  \<^verbatim>\<open>homeworks\<close> fails with the missing-key \<^verbatim>\<open>KeyError\<close>; a dictionary whose
  value under \<^verbatim>\<open>homeworks\<close> is not a list fails with the not-a-list
  \<^verbatim>\<open>TypeError\<close>; otherwise the value under \<^verbatim>\<open>homeworks\<close> is returned unchanged
  and nothing is logged. Each failure is logged at error level with the text it raises.
\<close>

theorem check_response_contract:
  "((\<forall>d. response \<noteq> JDict d) \<longrightarrow>
      check_response response
      = ([Log ERROR (Text text_not_dict)], Inl (Exn TypeError (Msg text_not_dict))))
   \<and> (map_of d ''homeworks'' = None \<longrightarrow>
      check_response (JDict d)
      = ([Log ERROR (Text text_no_homeworks_key)], Inl (Exn KeyError (Msg text_no_homeworks_key))))
   \<and> (map_of d ''homeworks'' = Some v \<and> (\<forall>xs. v \<noteq> JList xs) \<longrightarrow>
      check_response (JDict d)
      = ([Log ERROR (Text text_not_list)], Inl (Exn TypeError (Msg text_not_list))))
   \<and> (map_of d ''homeworks'' = Some (JList xs) \<longrightarrow>
      check_response (JDict d) = ([], Inr (JList xs)))"
proof (intro conjI impI)
  assume "\<forall>d. response \<noteq> JDict d"
  then show "check_response response
      = ([Log ERROR (Text text_not_dict)], Inl (Exn TypeError (Msg text_not_dict)))"
    by (cases response) (simp_all add: check_response_def)
next
  assume "map_of d ''homeworks'' = None"
  then show "check_response (JDict d)
      = ([Log ERROR (Text text_no_homeworks_key)], Inl (Exn KeyError (Msg text_no_homeworks_key)))"
    by (simp add: check_response_def)
next
  assume "map_of d ''homeworks'' = Some v \<and> (\<forall>xs. v \<noteq> JList xs)"
  then show "check_response (JDict d)
      = ([Log ERROR (Text text_not_list)], Inl (Exn TypeError (Msg text_not_list)))"
    by (cases v) (simp_all add: check_response_def)
next
  assume "map_of d ''homeworks'' = Some (JList xs)"
  then show "check_response (JDict d) = ([], Inr (JList xs))"
    by (simp add: check_response_def)
qed

theorem check_response_contract_witness:
  "check_response (JStr ''homeworks'')
     = ([Log ERROR (Text text_not_dict)], Inl (Exn TypeError (Msg text_not_dict)))
   \<and> check_response (JDict [(''current_date'', JInt 7)])
     = ([Log ERROR (Text text_no_homeworks_key)], Inl (Exn KeyError (Msg text_no_homeworks_key)))
   \<and> check_response (JDict [(''homeworks'', JInt 3)])
     = ([Log ERROR (Text text_not_list)], Inl (Exn TypeError (Msg text_not_list)))
   \<and> check_response (JDict [(''homeworks'', JList [JDict [(''status'', JStr ''approved'')]])])
     = ([], Inr (JList [JDict [(''status'', JStr ''approved'')]]))"
proof -
  have a: "\<forall>d. JStr ''homeworks'' \<noteq> JDict d"
    by simp
  have b: "map_of [(''current_date'', JInt 7)] ''homeworks'' = None"
    by simp
  have c: "map_of [(''homeworks'', JInt 3)] ''homeworks'' = Some (JInt 3) \<and> (\<forall>xs. JInt 3 \<noteq> JList xs)"
    by simp
  have d: "map_of [(''homeworks'', JList [JDict [(''status'', JStr ''approved'')]])] ''homeworks''
      = Some (JList [JDict [(''status'', JStr ''approved'')]])"
    by simp
  from a b c d
    check_response_contract [of "JStr ''homeworks''" "[(''current_date'', JInt 7)]" "JInt 3" "[]"]
    check_response_contract [of "JNull" "[(''homeworks'', JInt 3)]" "JInt 3" "[]"]
    check_response_contract [of "JNull" "[(''homeworks'', JList [JDict [(''status'', JStr ''approved'')]])]"
      "JNull" "[JDict [(''status'', JStr ''approved'')]]"]
  show ?thesis
    by simp
qed

section \<open>The notifier\<close>

text \<open>
  C5. When \<^verbatim>\<open>bot.send_message\<close> raises a \<^verbatim>\<open>TelegramError\<close>, the failure of the
  messaging transport, \<^verbatim>\<open>send_message\<close> logs an error and returns normally: the
  exception does not reach the caller. And no answer of the world, a failing delivery
  included, makes an exception leave the polling loop: after any number of iterations the
  process has not crashed.
\<close>

theorem send_message_swallows_delivery_failure:
  "(isinstance error TelegramError \<longrightarrow>
      send_message cfg (Some error) message
      = ([SendFailed (TELEGRAM_CHAT_ID cfg) message error, Log ERROR (Text text_not_sent)], Inr ()))
   \<and> (\<forall>e. snd (main_loop cfg py_repr ws s) \<noteq> Crashed e)"
proof (intro conjI impI allI)
  assume "isinstance error TelegramError"
  then show "send_message cfg (Some error) message
      = ([SendFailed (TELEGRAM_CHAT_ID cfg) message error, Log ERROR (Text text_not_sent)], Inr ())"
    by (simp add: send_message_def)
next
  fix e
  from main_loop_shape [of cfg py_repr ws s] show "snd (main_loop cfg py_repr ws s) \<noteq> Crashed e"
    by auto
qed

theorem send_message_swallows_delivery_failure_witness:
  "isinstance (Exn TelegramError (Msg ''Timed out'')) TelegramError
   \<and> send_message \<lparr>PRACTICUM_TOKEN = Some ''p'', TELEGRAM_TOKEN = Some ''t'', TELEGRAM_CHAT_ID = Some ''42''\<rparr>
       (Some (Exn TelegramError (Msg ''Timed out''))) ''hello''
     = ([SendFailed (Some ''42'') ''hello'' (Exn TelegramError (Msg ''Timed out'')),
         Log ERROR (Text text_not_sent)], Inr ())"
proof -
  have h: "isinstance (Exn TelegramError (Msg ''Timed out'')) TelegramError"
    by (simp add: isinstance_def)
  from h send_message_swallows_delivery_failure
    [of "Exn TelegramError (Msg ''Timed out'')"
        "\<lparr>PRACTICUM_TOKEN = Some ''p'', TELEGRAM_TOKEN = Some ''t'', TELEGRAM_CHAT_ID = Some ''42''\<rparr>"
        "''hello''" "\<lambda>v. []" "[]" "initial_state 0"]
  show ?thesis
    by simp
qed

section \<open>The API client\<close>

text \<open>
  C6. The claim: for every response with a status code other than 200,
  \<^verbatim>\<open>get_api_answer\<close> raises an unexpected-response-code error that carries the status
  code and the endpoint, and never takes such a response for a valid result.
  At status 503 the raised \<^verbatim>\<open>HTTPError\<close> has the text of line 64 followed by
  \<^verbatim>\<open>503\<close>, and the endpoint is no part of that text.
\<close>

theorem get_api_answer_503_error_text:
  "snd (get_api_answer
         \<lparr>PRACTICUM_TOKEN = Some ''p'', TELEGRAM_TOKEN = Some ''t'', TELEGRAM_CHAT_ID = Some ''42''\<rparr>
         (GetReturns 503 (Inr (JDict [(''homeworks'', JList [])]))) 0)
   = Inl (Exn HTTPError (Msg (text_bad_code @ ''503'')))
   \<and> \<not> sublist ENDPOINT (text_bad_code @ ''503'')"
proof -
  have "length (text_bad_code @ ''503'') < length ENDPOINT"
    by (simp add: text_bad_code_def ENDPOINT_def)
  then have "\<not> sublist ENDPOINT (text_bad_code @ ''503'')"
    using sublist_length_le [of ENDPOINT "text_bad_code @ ''503''"] by linarith
  then show ?thesis
    by (simp add: get_api_answer_def str_int_def)
qed

text \<open>
  C6 as the program has it: for every response with a status code other than 200, whatever its
  body, \<^verbatim>\<open>get_api_answer\<close> raises \<^verbatim>\<open>HTTPError\<close> whose text is that of line 64
  followed by the status code in decimal, and returns no value. The endpoint stands, with the
  status code, in the error record logged before the raise (lines 62 and 63).
\<close>

theorem get_api_answer_unexpected_code:
  assumes "status_code \<noteq> 200"
  shows "get_api_answer cfg (GetReturns status_code body) t
         = ([HttpGet ENDPOINT (HEADERS cfg) [(''from_date'', t)],
             Log ERROR (Text (text_endpoint_pre @ ENDPOINT @ text_endpoint_post @ str_int status_code))],
            Inl (Exn HTTPError (Msg (text_bad_code @ str_int status_code))))"
  using assms by (simp add: get_api_answer_def)

theorem get_api_answer_unexpected_code_witness:
  "(404::int) \<noteq> 200
   \<and> get_api_answer
       \<lparr>PRACTICUM_TOKEN = Some ''p'', TELEGRAM_TOKEN = Some ''t'', TELEGRAM_CHAT_ID = Some ''42''\<rparr>
       (GetReturns 404 (Inr (JDict [(''homeworks'', JList [])]))) 1000
     = ([HttpGet ENDPOINT [(''Authorization'', ''OAuth p'')] [(''from_date'', 1000)],
         Log ERROR (Text (text_endpoint_pre @ ENDPOINT @ text_endpoint_post @ ''404''))],
        Inl (Exn HTTPError (Msg (text_bad_code @ ''404''))))"
proof -
  have h: "(404::int) \<noteq> 200"
    by simp
  from get_api_answer_unexpected_code [OF h,
      of "\<lparr>PRACTICUM_TOKEN = Some ''p'', TELEGRAM_TOKEN = Some ''t'', TELEGRAM_CHAT_ID = Some ''42''\<rparr>"
         "Inr (JDict [(''homeworks'', JList [])])" 1000] h
  show ?thesis
    by (simp add: str_int_def HEADERS_def)
qed

section \<open>The state of the loop\<close>

text \<open>
  C7. The last known status starts as \<^verbatim>\<open>reviewing\<close> (line 126), and an iteration of
  the loop in which no notification is delivered leaves it as it was.
\<close>

theorem last_known_status_frame:
  "status (initial_state now) = ''reviewing''
   \<and> (sent_messages (fst (poll_cycle cfg py_repr w s)) = []
        \<and> snd (poll_cycle cfg py_repr w s) = Inr s' \<longrightarrow>
      status s' = status s)"
proof (intro conjI impI)
  show "status (initial_state now) = ''reviewing''"
    by (simp add: initial_state_def)
next
  assume "sent_messages (fst (poll_cycle cfg py_repr w s)) = [] \<and> snd (poll_cycle cfg py_repr w s) = Inr s'"
  with poll_cycle_shape [of cfg py_repr w s] show "status s' = status s"
    by auto
qed

theorem last_known_status_frame_witness:
  "sent_messages (fst (poll_cycle
       \<lparr>PRACTICUM_TOKEN = Some ''p'', TELEGRAM_TOKEN = Some ''t'', TELEGRAM_CHAT_ID = Some ''42''\<rparr> (\<lambda>v. [])
       \<lparr>http = GetRaises (Exn ConnectTimeout (Msg ''timed out'')), telegram = None\<rparr>
       (initial_state 1000))) = []
   \<and> snd (poll_cycle
       \<lparr>PRACTICUM_TOKEN = Some ''p'', TELEGRAM_TOKEN = Some ''t'', TELEGRAM_CHAT_ID = Some ''42''\<rparr> (\<lambda>v. [])
       \<lparr>http = GetRaises (Exn ConnectTimeout (Msg ''timed out'')), telegram = None\<rparr>
       (initial_state 1000)) = Inr (initial_state 1000)
   \<and> status (initial_state 1000) = ''reviewing''"
proof -
  have h: "sent_messages (fst (poll_cycle
        \<lparr>PRACTICUM_TOKEN = Some ''p'', TELEGRAM_TOKEN = Some ''t'', TELEGRAM_CHAT_ID = Some ''42''\<rparr> (\<lambda>v. [])
        \<lparr>http = GetRaises (Exn ConnectTimeout (Msg ''timed out'')), telegram = None\<rparr>
        (initial_state 1000))) = []
      \<and> snd (poll_cycle
        \<lparr>PRACTICUM_TOKEN = Some ''p'', TELEGRAM_TOKEN = Some ''t'', TELEGRAM_CHAT_ID = Some ''42''\<rparr> (\<lambda>v. [])
        \<lparr>http = GetRaises (Exn ConnectTimeout (Msg ''timed out'')), telegram = None\<rparr>
        (initial_state 1000)) = Inr (initial_state 1000)"
    by (simp add: poll_cycle_def poll_body_def seq_def get_api_answer_def isinstance_def)
  from h last_known_status_frame [of 1000
      "\<lparr>PRACTICUM_TOKEN = Some ''p'', TELEGRAM_TOKEN = Some ''t'', TELEGRAM_CHAT_ID = Some ''42''\<rparr>" "\<lambda>v. []"
      "\<lparr>http = GetRaises (Exn ConnectTimeout (Msg ''timed out'')), telegram = None\<rparr>"
      "initial_state 1000" "initial_state 1000"]
  show ?thesis
    by simp
qed

text \<open>
  C8. The poll cursor is set to the time of the start (line 125) and never changes: when the
  credentials are present and the bot is constructed, each iteration of the loop makes one
  fetch, every fetch carries \<^verbatim>\<open>from_date\<close> equal to that start time, and the cursor of the
  running loop still has that value.
\<close>

theorem poll_cursor_never_advanced:
  assumes "snd (check_tokens cfg)"
  shows "fetch_params (fst (main cfg py_repr None now ws)) = replicate (length ws) [(''from_date'', now)]
         \<and> (\<exists>s. snd (main cfg py_repr None now ws) = Running s \<and> current_timestamp s = now)"
proof -
  from assms have ok: "check_tokens cfg = ([], True)"
    by (simp add: check_tokens_def split: if_splits)
  from main_loop_shape [of cfg py_repr ws "initial_state now"] obtain ev
    where l: "main_loop cfg py_repr ws (initial_state now) = (ev, Running (initial_state now))"
      and f: "fetch_params ev = replicate (length ws) [(''from_date'', current_timestamp (initial_state now))]"
    by blast
  have "current_timestamp (initial_state now) = now"
    by (simp add: initial_state_def)
  with ok l f show ?thesis
    by (simp add: main_def)
qed

theorem poll_cursor_never_advanced_witness:
  "snd (check_tokens \<lparr>PRACTICUM_TOKEN = Some ''p'', TELEGRAM_TOKEN = Some ''t'', TELEGRAM_CHAT_ID = Some ''42''\<rparr>)
   \<and> fetch_params (fst (main
        \<lparr>PRACTICUM_TOKEN = Some ''p'', TELEGRAM_TOKEN = Some ''t'', TELEGRAM_CHAT_ID = Some ''42''\<rparr>
        (\<lambda>v. []) None 1000
        [\<lparr>http = GetReturns 200 (Inr (JDict [(''homeworks'', JList [])])), telegram = None\<rparr>,
         \<lparr>http = GetReturns 503 (Inr JNull), telegram = None\<rparr>]))
     = [[(''from_date'', 1000)], [(''from_date'', 1000)]]"
proof -
  have h: "snd (check_tokens \<lparr>PRACTICUM_TOKEN = Some ''p'', TELEGRAM_TOKEN = Some ''t'', TELEGRAM_CHAT_ID = Some ''42''\<rparr>)"
    by (simp add: check_tokens_def truthy_def)
  from poll_cursor_never_advanced [OF h, of "\<lambda>v. []" 1000
      "[\<lparr>http = GetReturns 200 (Inr (JDict [(''homeworks'', JList [])])), telegram = None\<rparr>,
        \<lparr>http = GetReturns 503 (Inr JNull), telegram = None\<rparr>]"] h
  show ?thesis
    by (simp add: numeral_2_eq_2)
qed

end
